theory Spec2Isabelle
  imports Complex_Main "HOL-Library.Finite_Map" "HOL-Library.FSet"
begin

section \<open>Strings\<close>

text \<open>
  A Go string is a byte sequence; it is modelled as \<^typ>\<open>string\<close>, one \<^typ>\<open>char\<close> per
  byte. The case mappings and the space trimming of package \<^verbatim>\<open>strings\<close> are modelled on
  the ASCII range, where they act on single bytes; bytes from 128 upwards are left alone.
\<close>

definition dquote :: char where
  "dquote = char_of (34::nat)"

definition isUpperByte :: "char \<Rightarrow> bool" where
  "isUpperByte c = (65 \<le> (of_char c :: nat) \<and> (of_char c :: nat) \<le> 90)"

definition isLowerByte :: "char \<Rightarrow> bool" where
  "isLowerByte c = (97 \<le> (of_char c :: nat) \<and> (of_char c :: nat) \<le> 122)"

definition isDigitByte :: "char \<Rightarrow> bool" where
  "isDigitByte c = (48 \<le> (of_char c :: nat) \<and> (of_char c :: nat) \<le> 57)"

definition toLowerByte :: "char \<Rightarrow> char" where
  "toLowerByte c = (if isUpperByte c then char_of ((of_char c :: nat) + 32) else c)"

definition toUpperByte :: "char \<Rightarrow> char" where
  "toUpperByte c = (if isLowerByte c then char_of ((of_char c :: nat) - 32) else c)"

text \<open>\<^verbatim>\<open>strings.ToLower\<close> and \<^verbatim>\<open>strings.ToUpper\<close>.\<close>

definition ToLower :: "string \<Rightarrow> string" where
  "ToLower s = map toLowerByte s"

definition ToUpper :: "string \<Rightarrow> string" where
  "ToUpper s = map toUpperByte s"

text \<open>\<^verbatim>\<open>strings.TrimSpace\<close>: the ASCII white space is tab, line feed, vertical tab, form
  feed, carriage return and the blank.\<close>

definition isSpaceByte :: "char \<Rightarrow> bool" where
  "isSpaceByte c = ((9 \<le> (of_char c :: nat) \<and> (of_char c :: nat) \<le> 13) \<or> (of_char c :: nat) = 32)"

definition TrimSpace :: "string \<Rightarrow> string" where
  "TrimSpace s = rev (dropWhile isSpaceByte (rev (dropWhile isSpaceByte s)))"

text \<open>\<^verbatim>\<open>strings.HasPrefix\<close> and \<^verbatim>\<open>strings.TrimPrefix\<close>.\<close>

definition HasPrefix :: "string \<Rightarrow> string \<Rightarrow> bool" where
  "HasPrefix s p = (take (length p) s = p)"

definition TrimPrefix :: "string \<Rightarrow> string \<Rightarrow> string" where
  "TrimPrefix s p = (if HasPrefix s p then drop (length p) s else s)"

text \<open>\<^verbatim>\<open>strings.Join\<close>.\<close>

fun Join :: "string list \<Rightarrow> string \<Rightarrow> string" where
  "Join [] sep = []"
| "Join [x] sep = x"
| "Join (x # y # ys) sep = x @ sep @ Join (y # ys) sep"

text \<open>
  The conversion \<^verbatim>\<open>string(c)\<close> of a byte \<^verbatim>\<open>c\<close>: Go reads the byte as a code point and
  encodes it in UTF-8, so a byte below 128 gives itself and a byte from 128 upwards gives
  two bytes.
\<close>

definition byteString :: "char \<Rightarrow> string" where
  "byteString c =
     (if (of_char c :: nat) < 128 then [c]
      else [char_of (192 + (of_char c :: nat) div 64), char_of (128 + (of_char c :: nat) mod 64)])"

section \<open>The tokenizer\<close>

text \<open>
  \<^verbatim>\<open>wordRE.FindAllString(text, -1)\<close> with \<^verbatim>\<open>wordRE = [a-zA-Z0-9]+\<close>: the maximal runs
  of letters and digits, left to right. The second argument is the run being read.
\<close>

definition isWordByte :: "char \<Rightarrow> bool" where
  "isWordByte c = (isLowerByte c \<or> isUpperByte c \<or> isDigitByte c)"

fun FindAllString :: "string \<Rightarrow> string \<Rightarrow> string list" where
  "FindAllString [] cur = (if cur = [] then [] else [cur])"
| "FindAllString (c # cs) cur =
     (if isWordByte c then FindAllString cs (cur @ [c])
      else if cur = [] then FindAllString cs []
      else cur # FindAllString cs [])"

definition stopwords :: "string list" where
  "stopwords =
     [''the'', ''is'', ''and'', ''a'', ''an'', ''of'', ''to'', ''in'',
      ''for'', ''on'', ''with'', ''by'', ''that'', ''this'', ''it'', ''as'',
      ''are'', ''was'', ''at'', ''from'', ''be'', ''has'', ''have'']"

text \<open>\<^verbatim>\<open>Stem\<close> is a placeholder that returns its argument.\<close>

definition Stem :: "string \<Rightarrow> string" where
  "Stem w = w"

text \<open>
  \<^verbatim>\<open>Tokenize\<close> reads the global flag \<^verbatim>\<open>EnableStemming\<close>, which is the first argument
  of \<open>TokenizeWith\<close>; the flag is \<^verbatim>\<open>false\<close> when the program starts.
\<close>

fun keepTokens :: "bool \<Rightarrow> string list \<Rightarrow> string list" where
  "keepTokens stem [] = []"
| "keepTokens stem (m # ms) =
     (if m \<in> set stopwords then keepTokens stem ms
      else (if stem then Stem m else m) # keepTokens stem ms)"

definition TokenizeWith :: "bool \<Rightarrow> string \<Rightarrow> string list" where
  "TokenizeWith stem text = keepTokens stem (FindAllString (ToLower text) [])"

definition Tokenize :: "string \<Rightarrow> string list" where
  "Tokenize text = TokenizeWith False text"

section \<open>The query compiler\<close>

text \<open>
  The scanning loop of \<^verbatim>\<open>QueryToRPN\<close> over the bytes of the trimmed query. Its state is
  the token list \<^verbatim>\<open>toks\<close>, the token being read \<^verbatim>\<open>cur\<close> and the flag \<^verbatim>\<open>inQuote\<close>.
\<close>

definition flush :: "string list \<Rightarrow> string \<Rightarrow> string list" where
  "flush toks cur = (if cur \<noteq> [] then toks @ [cur] else toks)"

fun scanQuery :: "string \<Rightarrow> string list \<Rightarrow> string \<Rightarrow> bool \<Rightarrow> string list \<times> string \<times> bool" where
  "scanQuery [] toks cur inQuote = (toks, cur, inQuote)"
| "scanQuery (c # cs) toks cur inQuote =
     (if c = dquote then
        (if inQuote
         then scanQuery cs (if cur \<noteq> [] then toks @ [''PHRASE:'' @ cur] else toks) [] False
         else scanQuery cs toks [] True)
      else if inQuote then scanQuery cs toks (cur @ byteString c) inQuote
      else if c = CHR '' '' then scanQuery cs (flush toks cur) [] inQuote
      else if c = CHR ''('' \<or> c = CHR '')'' then scanQuery cs (flush toks cur @ [[c]]) [] inQuote
      else scanQuery cs toks (cur @ byteString c) inQuote)"

definition queryTokens :: "string \<Rightarrow> string list" where
  "queryTokens q = (case scanQuery q [] [] False of (toks, cur, inQuote) \<Rightarrow> flush toks cur)"

text \<open>The loop that normalises the tokens: one token.\<close>

definition normalizeToken :: "string \<Rightarrow> string" where
  "normalizeToken tok =
     (let t = ToUpper tok in
      if t = ''AND'' \<or> t = ''OR'' \<or> t = ''NOT'' \<or> t = ''('' \<or> t = '')'' \<or> HasPrefix t ''PHRASE:''
      then tok
      else
        (let t' = ToLower t; sub = Tokenize t' in
         if length sub = 0 then t'
         else if length sub = 1 then hd sub
         else Join sub ''_''))"

text \<open>
  The shunting-yard loop. The operator stack is a list whose head is the top of the Go
  slice \<^verbatim>\<open>opstack\<close>; \<open>prec\<close> is the map \<^verbatim>\<open>prec\<close>, where a missing key reads as 0.
\<close>

definition prec :: "string \<Rightarrow> nat" where
  "prec op = (if op = ''OR'' then 1 else if op = ''AND'' then 2 else if op = ''NOT'' then 3 else 0)"

text \<open>The loop of the closing parenthesis: pop to the output until a \<^verbatim>\<open>(\<close> is on top.\<close>

fun popToParen :: "string list \<Rightarrow> string list \<Rightarrow> string list \<times> string list" where
  "popToParen out [] = (out, [])"
| "popToParen out (op # ops) =
     (if op \<noteq> ''('' then popToParen (out @ [op]) ops else (out, op # ops))"

text \<open>The loop of an operator \<^verbatim>\<open>u\<close>: pop the operators that bind at least as tightly.\<close>

fun popHigher :: "string \<Rightarrow> string list \<Rightarrow> string list \<Rightarrow> string list \<times> string list" where
  "popHigher u out [] = (out, [])"
| "popHigher u out (op # ops) =
     (if op = ''('' then (out, op # ops)
      else if prec (ToUpper op) \<ge> prec u then popHigher u (out @ [op]) ops
      else (out, op # ops))"

definition shuntStep :: "string list \<times> string list \<Rightarrow> string \<Rightarrow> string list \<times> string list" where
  "shuntStep st tk =
     (case st of (out, opstack) \<Rightarrow>
        if tk = ''('' then (out, tk # opstack)
        else if tk = '')'' then
          (case popToParen out opstack of (out', opstack') \<Rightarrow>
             (case opstack' of
                [] \<Rightarrow> (out', [])
              | op # ops \<Rightarrow> if op = ''('' then (out', ops) else (out', op # ops)))
        else
          (let u = ToUpper tk in
           if u = ''AND'' \<or> u = ''OR'' \<or> u = ''NOT'' then
             (case popHigher u out opstack of (out', opstack') \<Rightarrow> (out', u # opstack'))
           else if HasPrefix tk ''PHRASE:'' then (out @ [''PHRASE:'' @ TrimPrefix tk ''PHRASE:''], opstack)
           else (out @ [tk], opstack)))"

definition shuntingYard :: "string list \<Rightarrow> string list" where
  "shuntingYard toks = (case foldl shuntStep ([], []) toks of (out, opstack) \<Rightarrow> out @ opstack)"

definition QueryToRPN :: "string \<Rightarrow> string list" where
  "QueryToRPN q0 =
     (let q = TrimSpace q0 in
      if q = [] then []
      else shuntingYard (map normalizeToken (queryTokens q)))"

definition isOperator :: "string \<Rightarrow> bool" where
  "isOperator t = (let u = ToUpper t in u = ''AND'' \<or> u = ''OR'' \<or> u = ''NOT'')"

section \<open>The inverted index\<close>

record Document =
  ID :: int
  Title :: string
  Date :: string
  Content :: string

text \<open>
  A posting maps a document ID to the positions of one term in that document. Go's maps
  are finite, so they are finite maps here. Document IDs are Go \<^verbatim>\<open>int\<close>s that are only
  compared; positions and counts are lengths and indices of slices, never negative.
\<close>

type_synonym Posting = "(int, nat list) fmap"

record Index =
  Terms :: "(string, Posting) fmap"
  Docs :: "(int, Document) fmap"
  DocTokCounts :: "(int, nat) fmap"
  N :: nat

definition NewIndex :: Index where
  "NewIndex = \<lparr>Terms = fmempty, Docs = fmempty, DocTokCounts = fmempty, N = 0\<rparr>"

text \<open>
  Reading a Go map at a missing key gives the zero value, and reading a \<^verbatim>\<open>nil\<close> map
  gives it too: \<open>postingOf\<close> is \<^verbatim>\<open>idx.Terms[t]\<close> and \<open>positionsOf\<close> is
  \<^verbatim>\<open>idx.Terms[t][doc]\<close>.
\<close>

definition postingOf :: "Index \<Rightarrow> string \<Rightarrow> Posting" where
  "postingOf idx t = (case fmlookup (Terms idx) t of None \<Rightarrow> fmempty | Some p \<Rightarrow> p)"

definition positionsIn :: "Posting \<Rightarrow> int \<Rightarrow> nat list" where
  "positionsIn p doc = (case fmlookup p doc of None \<Rightarrow> [] | Some ps \<Rightarrow> ps)"

definition positionsOf :: "Index \<Rightarrow> string \<Rightarrow> int \<Rightarrow> nat list" where
  "positionsOf idx t doc = positionsIn (postingOf idx t) doc"

text \<open>The body of the loop of \<^verbatim>\<open>AddDocument\<close> for the token \<open>tok\<close> at position \<open>pos\<close>.\<close>

definition addToken :: "int \<Rightarrow> (string, Posting) fmap \<Rightarrow> nat \<Rightarrow> string \<Rightarrow> (string, Posting) fmap" where
  "addToken docID terms pos tok =
     (let terms' = (case fmlookup terms tok of None \<Rightarrow> fmupd tok fmempty terms | Some _ \<Rightarrow> terms);
          p = (case fmlookup terms' tok of None \<Rightarrow> fmempty | Some p \<Rightarrow> p)
      in fmupd tok (fmupd docID (positionsIn p docID @ [pos]) p) terms')"

text \<open>The loop \<^verbatim>\<open>for pos, tok := range tokens\<close>, from position \<open>pos\<close> on.\<close>

fun addTokens :: "int \<Rightarrow> (string, Posting) fmap \<Rightarrow> nat \<Rightarrow> string list \<Rightarrow> (string, Posting) fmap" where
  "addTokens docID terms pos [] = terms"
| "addTokens docID terms pos (tok # toks) = addTokens docID (addToken docID terms pos tok) (Suc pos) toks"

definition AddDocument :: "Index \<Rightarrow> Document \<Rightarrow> Index" where
  "AddDocument idx d =
     (let docs = fmupd (ID d) d (Docs idx);
          tokens = Tokenize (Title d @ '' '' @ Content d);
          counts = fmupd (ID d) (length tokens) (DocTokCounts idx);
          terms = addTokens (ID d) (Terms idx) 0 tokens
      in \<lparr>Terms = terms, Docs = docs, DocTokCounts = counts, N = fcard (fmdom docs)\<rparr>)"

text \<open>\<^verbatim>\<open>postingIDs\<close>: the keys of a posting, sorted by \<^verbatim>\<open>sort.Ints\<close>.\<close>

definition postingIDs :: "Posting \<Rightarrow> int list" where
  "postingIDs post = sorted_list_of_fset (fmdom post)"

section \<open>Sets of document IDs\<close>

text \<open>A \<^verbatim>\<open>map[int]struct{}\<close> is a finite set of document IDs.\<close>

definition allDocsSet :: "Index \<Rightarrow> int fset" where
  "allDocsSet idx = fmdom (Docs idx)"

definition setIntersect :: "int fset \<Rightarrow> int fset \<Rightarrow> int fset" where
  "setIntersect a b =
     (if fcard a > fcard b then ffilter (\<lambda>k. k |\<in>| a) b else ffilter (\<lambda>k. k |\<in>| b) a)"

definition setUnion :: "int fset \<Rightarrow> int fset \<Rightarrow> int fset" where
  "setUnion a b = a |\<union>| b"

definition setDiff :: "int fset \<Rightarrow> int fset \<Rightarrow> int fset" where
  "setDiff a b = ffilter (\<lambda>k. k |\<notin>| b) a"

section \<open>Phrase matching\<close>

datatype error = IndexOutOfRange

fun contains :: "nat list \<Rightarrow> nat \<Rightarrow> bool" where
  "contains [] x = False"
| "contains (v # vs) x = (if v = x then True else contains vs x)"

fun intersectSorted :: "int list \<Rightarrow> int list \<Rightarrow> int list" where
  "intersectSorted [] b = []"
| "intersectSorted (x # xs) [] = []"
| "intersectSorted (x # xs) (y # ys) =
     (if x = y then x # intersectSorted xs ys
      else if x < y then intersectSorted xs (y # ys)
      else intersectSorted (x # xs) ys)"

text \<open>
  The first loop of \<^verbatim>\<open>checkPhraseInDoc\<close> fills \<^verbatim>\<open>posLists\<close>; \<open>None\<close> is its early
  \<^verbatim>\<open>return false\<close> at a token with no position in the document.
\<close>

fun posLists :: "Index \<Rightarrow> int \<Rightarrow> string list \<Rightarrow> nat list list option" where
  "posLists idx doc [] = Some []"
| "posLists idx doc (t # ts) =
     (let pl = positionsOf idx t doc in
      if length pl = 0 then None
      else (case posLists idx doc ts of None \<Rightarrow> None | Some pls \<Rightarrow> Some (pl # pls)))"

text \<open>The inner loop \<^verbatim>\<open>for i := 1; i < len(tokens); i++\<close>, from index \<open>i\<close> on, over
  \<^verbatim>\<open>posLists[i:]\<close>.\<close>

fun offsetsOk :: "nat \<Rightarrow> nat \<Rightarrow> nat list list \<Rightarrow> bool" where
  "offsetsOk p i [] = True"
| "offsetsOk p i (pl # pls) = (if \<not> contains pl (p + i) then False else offsetsOk p (Suc i) pls)"

text \<open>The outer loop over the positions of the first word.\<close>

fun anyStart :: "nat list \<Rightarrow> nat list list \<Rightarrow> bool" where
  "anyStart [] rest = False"
| "anyStart (p # ps) rest = (if offsetsOk p 1 rest then True else anyStart ps rest)"

text \<open>\<^verbatim>\<open>posLists[0]\<close> panics when \<^verbatim>\<open>tokens\<close> is empty.\<close>

definition checkPhraseInDoc :: "Index \<Rightarrow> int \<Rightarrow> string list \<Rightarrow> error + bool" where
  "checkPhraseInDoc idx doc tokens =
     (case posLists idx doc tokens of
        None \<Rightarrow> Inr False
      | Some pls \<Rightarrow>
          (case pls of
             [] \<Rightarrow> Inl IndexOutOfRange
           | p0 # rest \<Rightarrow> Inr (anyStart p0 rest)))"

text \<open>
  The candidate loop of \<^verbatim>\<open>docsWithPhrase\<close>; \<open>None\<close> is one of its early returns of the
  empty result. The flag says whether the loop is at index 0.
\<close>

fun candidateDocs :: "Index \<Rightarrow> bool \<Rightarrow> int list \<Rightarrow> string list \<Rightarrow> int list option" where
  "candidateDocs idx first candidate [] = Some candidate"
| "candidateDocs idx first candidate (t # ts) =
     (case fmlookup (Terms idx) t of
        None \<Rightarrow> None
      | Some posting \<Rightarrow>
          (let ids = postingIDs posting;
               candidate' = (if first then ids else intersectSorted candidate ids)
           in if length candidate' = 0 then None else candidateDocs idx False candidate' ts))"

fun phraseDocs :: "Index \<Rightarrow> string list \<Rightarrow> int list \<Rightarrow> int fset \<Rightarrow> error + int fset" where
  "phraseDocs idx tokens [] res = Inr res"
| "phraseDocs idx tokens (doc # docs) res =
     (case checkPhraseInDoc idx doc tokens of
        Inl e \<Rightarrow> Inl e
      | Inr b \<Rightarrow> phraseDocs idx tokens docs (if b then finsert doc res else res))"

definition docsWithPhrase :: "Index \<Rightarrow> string list \<Rightarrow> error + int fset" where
  "docsWithPhrase idx tokens =
     (if length tokens = 0 then Inr {||}
      else (case candidateDocs idx True [] tokens of
              None \<Rightarrow> Inr {||}
            | Some candidate \<Rightarrow> phraseDocs idx tokens candidate {||}))"

section \<open>Evaluation of a query in postfix form\<close>

text \<open>One token of the loop of \<^verbatim>\<open>EvaluateRPN\<close>; the head of the list is the top of the
  stack.\<close>

definition evalToken :: "Index \<Rightarrow> int fset list \<Rightarrow> string \<Rightarrow> error + int fset list" where
  "evalToken idx stack tok =
     (if tok = ''AND'' \<or> tok = ''OR'' then
        (case stack of
           r # l # rest \<Rightarrow>
             if tok = ''AND'' then Inr (setIntersect l r # rest) else Inr (setUnion l r # rest)
         | _ \<Rightarrow> Inr stack)
      else if tok = ''NOT'' then
        (case stack of
           a # rest \<Rightarrow> Inr (setDiff (allDocsSet idx) a # rest)
         | [] \<Rightarrow> Inr stack)
      else if HasPrefix tok ''PHRASE:'' then
        (case docsWithPhrase idx (Tokenize (TrimPrefix tok ''PHRASE:'')) of
           Inl e \<Rightarrow> Inl e
         | Inr s \<Rightarrow> Inr (s # stack))
      else
        (case fmlookup (Terms idx) tok of
           Some posting \<Rightarrow> Inr (fmdom posting # stack)
         | None \<Rightarrow> Inr ({||} # stack)))"

fun evalLoop :: "Index \<Rightarrow> int fset list \<Rightarrow> string list \<Rightarrow> error + int fset list" where
  "evalLoop idx stack [] = Inr stack"
| "evalLoop idx stack (tok # rpn) =
     (case evalToken idx stack tok of
        Inl e \<Rightarrow> Inl e
      | Inr stack' \<Rightarrow> evalLoop idx stack' rpn)"

definition EvaluateRPN :: "Index \<Rightarrow> string list \<Rightarrow> error + int fset" where
  "EvaluateRPN idx rpn =
     (case evalLoop idx [] rpn of
        Inl e \<Rightarrow> Inl e
      | Inr stack \<Rightarrow> (case stack of [] \<Rightarrow> Inr {||} | s # _ \<Rightarrow> Inr s))"

section \<open>Matched terms and scoring\<close>

text \<open>
  \<^verbatim>\<open>matchedTermsInDoc\<close> collects the matched strings in a \<^verbatim>\<open>map[string]bool\<close> and
  returns its keys in the map's iteration order, which Go leaves open. The model keeps
  the keys in the order of their first insertion.
\<close>

definition addKey :: "string list \<Rightarrow> string \<Rightarrow> string list" where
  "addKey keys k = (if k \<in> set keys then keys else keys @ [k])"

fun matchedLoop :: "Index \<Rightarrow> int \<Rightarrow> string list \<Rightarrow> string list \<Rightarrow> error + string list" where
  "matchedLoop idx doc keys [] = Inr keys"
| "matchedLoop idx doc keys (tok # rpn) =
     (if isOperator tok then matchedLoop idx doc keys rpn
      else if HasPrefix tok ''PHRASE:'' then
        (let phrase = TrimPrefix tok ''PHRASE:''; tokens = Tokenize phrase in
         case checkPhraseInDoc idx doc tokens of
           Inl e \<Rightarrow> Inl e
         | Inr b \<Rightarrow> matchedLoop idx doc (if b then addKey keys phrase else keys) rpn)
      else
        (case fmlookup (Terms idx) tok of
           Some posting \<Rightarrow>
             matchedLoop idx doc (if length (positionsIn posting doc) > 0 then addKey keys tok else keys) rpn
         | None \<Rightarrow> matchedLoop idx doc keys rpn))"

definition matchedTermsInDoc :: "Index \<Rightarrow> int \<Rightarrow> string list \<Rightarrow> error + string list" where
  "matchedTermsInDoc idx doc rpn = matchedLoop idx doc [] rpn"

text \<open>
  Scores are \<^verbatim>\<open>float64\<close> in the source and real numbers here: \<open>termWeight\<close> is the
  product \<^verbatim>\<open>tfNorm * idf\<close> for a term with \<open>tf\<close> positions in a document of \<open>cnt\<close>
  tokens, in an index of \<open>n\<close> documents of which \<open>df\<close> hold the term.
\<close>

definition termWeight :: "nat \<Rightarrow> nat \<Rightarrow> nat \<Rightarrow> nat \<Rightarrow> real" where
  "termWeight tf cnt n df = (real tf / real cnt) * ln (1 + real n / real df)"

definition docTokCount :: "Index \<Rightarrow> int \<Rightarrow> nat" where
  "docTokCount idx doc = (case fmlookup (DocTokCounts idx) doc of None \<Rightarrow> 0 | Some c \<Rightarrow> c)"

text \<open>What one pass of the loop of \<^verbatim>\<open>scoreDoc\<close> adds to the score.\<close>

definition scoreTerm :: "Index \<Rightarrow> int \<Rightarrow> string \<Rightarrow> real" where
  "scoreTerm idx doc t =
     (if HasPrefix t ''PHRASE:'' then 2
      else
        (case fmlookup (Terms idx) t of
           None \<Rightarrow> 0
         | Some posting \<Rightarrow>
             (let tf = length (positionsIn posting doc); df = fcard (fmdom posting) in
              if df = 0 \<or> docTokCount idx doc = 0 then 0
              else termWeight tf (docTokCount idx doc) (N idx) df)))"

definition scoreDoc :: "Index \<Rightarrow> int \<Rightarrow> string list \<Rightarrow> real" where
  "scoreDoc idx doc matched = foldl (\<lambda>score t. score + scoreTerm idx doc t) 0 matched"

record SearchResult =
  DocID :: int
  Score :: real
  MatchedTerms :: "string list"

text \<open>
  The result loop of \<^verbatim>\<open>Search\<close> runs over the result set in the map's iteration order,
  and \<^verbatim>\<open>sort.Slice\<close> is not stable; the model visits the documents by ascending ID and
  sorts stably by descending score.
\<close>

fun searchResults :: "Index \<Rightarrow> string list \<Rightarrow> int list \<Rightarrow> error + SearchResult list" where
  "searchResults idx rpn [] = Inr []"
| "searchResults idx rpn (doc # docs) =
     (case matchedTermsInDoc idx doc rpn of
        Inl e \<Rightarrow> Inl e
      | Inr matched \<Rightarrow>
          (case searchResults idx rpn docs of
             Inl e \<Rightarrow> Inl e
           | Inr rs \<Rightarrow>
               Inr (\<lparr>DocID = doc, Score = scoreDoc idx doc matched, MatchedTerms = matched\<rparr> # rs)))"

definition Search :: "Index \<Rightarrow> string \<Rightarrow> error + SearchResult list" where
  "Search idx query =
     (if length query = 0 then Inr []
      else
        (let rpn = QueryToRPN query in
         case EvaluateRPN idx rpn of
           Inl e \<Rightarrow> Inl e
         | Inr resSet \<Rightarrow>
             (case searchResults idx rpn (sorted_list_of_fset resSet) of
                Inl e \<Rightarrow> Inl e
              | Inr results \<Rightarrow> Inr (sort_key (\<lambda>r. - Score r) results))))"

section \<open>Snippets\<close>

text \<open>The loop of \<^verbatim>\<open>MakeSnippet\<close> over the terms, for the content token \<open>w\<close>: whether it
  reaches \<^verbatim>\<open>first = i\<close>.\<close>

fun termHits :: "string list \<Rightarrow> string \<Rightarrow> bool" where
  "termHits [] w = False"
| "termHits (t # ts) w =
     (if HasPrefix t ''PHRASE:'' then
        (let phToks = Tokenize (TrimPrefix t ''PHRASE:'') in
         if length phToks > 0 \<and> w = hd phToks then True else termHits ts w)
      else if w = t then True
      else termHits ts w)"

text \<open>The loop over the content tokens, from index \<open>i\<close> on; \<open>None\<close> is \<^verbatim>\<open>first == -1\<close>.\<close>

fun firstHit :: "string list \<Rightarrow> nat \<Rightarrow> string list \<Rightarrow> nat option" where
  "firstHit terms i [] = None"
| "firstHit terms i (w # ws) = (if termHits terms w then Some i else firstHit terms (Suc i) ws)"

text \<open>The slice \<^verbatim>\<open>toks[start:end]\<close>, for \<open>start \<le> end \<le> length toks\<close>.\<close>

definition slice :: "'a list \<Rightarrow> nat \<Rightarrow> nat \<Rightarrow> 'a list" where
  "slice xs start end = take (end - start) (drop start xs)"

definition MakeSnippet :: "string \<Rightarrow> string list \<Rightarrow> string" where
  "MakeSnippet content terms =
     (if length content = 0 then []
      else
        (let toks = Tokenize content in
         case firstHit terms 0 toks of
           None \<Rightarrow>
             (let end = (if 30 > length toks then length toks else 30)
              in Join (slice toks 0 end) '' '' @ ''...'')
         | Some first \<Rightarrow>
             (let start = (if first < 8 then 0 else first - 8);
                  end = (if first + 12 > length toks then length toks else first + 12)
              in ''...'' @ Join (slice toks start end) '' '' @ ''...'')))"

section \<open>Example data\<close>

text \<open>One document whose content is the text \<^verbatim>\<open>the small cat sat\<close>, and the query made of
  the phrase \<^verbatim>\<open>small cat\<close> in double quotes.\<close>

definition catDoc :: Document where
  "catDoc = \<lparr>ID = 1, Title = [], Date = [], Content = ''the small cat sat''\<rparr>"

definition catIndex :: Index where
  "catIndex = AddDocument NewIndex catDoc"

definition smallCatQuery :: string where
  "smallCatQuery = dquote # ''small cat'' @ [dquote]"

text \<open>Two indexes of one document of two tokens each, where \<^verbatim>\<open>cat\<close> occurs once and twice.\<close>

definition tfIndexA :: Index where
  "tfIndexA = AddDocument NewIndex \<lparr>ID = 1, Title = [], Date = [], Content = ''cat dog''\<rparr>"

definition tfIndexB :: Index where
  "tfIndexB = AddDocument NewIndex \<lparr>ID = 1, Title = [], Date = [], Content = ''cat cat''\<rparr>"

section \<open>The phrase bonus\<close>

lemma rpn_small_cat: "QueryToRPN smallCatQuery = [''PHRASE:small cat'']"
  by code_simp

lemma eval_small_cat: "EvaluateRPN catIndex [''PHRASE:small cat''] = Inr {|1|}"
  by code_simp

lemma matched_small_cat:
  "matchedTermsInDoc catIndex 1 [''PHRASE:small cat''] = Inr [''small cat'']"
  by code_simp

lemma no_term_small_cat: "fmlookup (Terms catIndex) ''small cat'' = None"
  by code_simp

lemma sorted_one: "sorted_list_of_fset {|1::int|} = [1]"
  by code_simp

lemma query_nonempty: "smallCatQuery \<noteq> []"
  by (simp add: smallCatQuery_def)

lemma prefix_small_cat:
  "\<not> HasPrefix ''small cat'' ''PHRASE:''" "HasPrefix ''PHRASE:small cat'' ''PHRASE:''"
  by code_simp+

text \<open>
  Claim C1. Each matched phrase operand should add 2.0 to the score of a result document.
  \<^verbatim>\<open>scoreDoc\<close> adds 2 for a matched string that starts with \<^verbatim>\<open>PHRASE:\<close>, but
  \<^verbatim>\<open>matchedTermsInDoc\<close> records a matched phrase without that prefix, so in \<^verbatim>\<open>Search\<close>
  the bonus is lost: over the text \<^verbatim>\<open>the small cat sat\<close>, the quoted query
  \<^verbatim>\<open>small cat\<close> returns document 1 with the phrase matched and the score 0.
\<close>

theorem phrase_bonus_lost:
  "Search catIndex smallCatQuery = Inr [\<lparr>DocID = 1, Score = 0, MatchedTerms = [''small cat'']\<rparr>]
   \<and> scoreDoc catIndex 1 [''PHRASE:small cat''] = 2"
  by (simp add: Search_def query_nonempty rpn_small_cat eval_small_cat sorted_one
      matched_small_cat scoreDoc_def scoreTerm_def prefix_small_cat no_term_small_cat)

section \<open>Precedence in the compiled query\<close>


section \<open>Monotonicity of the term score\<close>

lemma termWeight_mono: "tf1 \<le> tf2 \<Longrightarrow> termWeight tf1 cnt n df \<le> termWeight tf2 cnt n df"
proof -
  assume le: "tf1 \<le> tf2"
  have idf: "0 \<le> ln (1 + real n / real df)"
    by (rule ln_ge_zero) simp
  have "real tf1 / real cnt \<le> real tf2 / real cnt"
    using le by (simp add: divide_right_mono)
  then show ?thesis
    unfolding termWeight_def using idf by (rule mult_right_mono)
qed

lemma scoreTerm_literal:
  "\<not> HasPrefix t ''PHRASE:'' \<Longrightarrow>
   scoreTerm idx doc t =
     (if fcard (fmdom (postingOf idx t)) = 0 \<or> docTokCount idx doc = 0 then 0
      else termWeight (length (positionsOf idx t doc)) (docTokCount idx doc) (N idx)
             (fcard (fmdom (postingOf idx t))))"
  by (simp add: scoreTerm_def postingOf_def positionsOf_def Let_def fcard_fempty
      split: option.splits)

text \<open>
  Claim C7. For a literal term, with the token count of the document, the document count
  and the document frequency of the term held fixed, more occurrences of the term in the
  document never give a smaller contribution to the score.
\<close>

theorem term_score_monotone_in_tf:
  assumes "\<not> HasPrefix t ''PHRASE:''"
    and "docTokCount idx1 doc = docTokCount idx2 doc"
    and "N idx1 = N idx2"
    and "fcard (fmdom (postingOf idx1 t)) = fcard (fmdom (postingOf idx2 t))"
    and "length (positionsOf idx1 t doc) \<le> length (positionsOf idx2 t doc)"
  shows "scoreTerm idx1 doc t \<le> scoreTerm idx2 doc t"
  using assms by (simp add: scoreTerm_literal termWeight_mono)

theorem term_score_monotone_in_tf_witness:
  "\<not> HasPrefix ''cat'' ''PHRASE:''
   \<and> docTokCount tfIndexA 1 = 2 \<and> docTokCount tfIndexB 1 = 2
   \<and> N tfIndexA = 1 \<and> N tfIndexB = 1
   \<and> fcard (fmdom (postingOf tfIndexA ''cat'')) = 1
   \<and> fcard (fmdom (postingOf tfIndexB ''cat'')) = 1
   \<and> length (positionsOf tfIndexA ''cat'' 1) = 1
   \<and> length (positionsOf tfIndexB ''cat'' 1) = 2
   \<and> scoreTerm tfIndexA 1 ''cat'' \<le> scoreTerm tfIndexB 1 ''cat''"
proof -
  have p: "\<not> HasPrefix ''cat'' ''PHRASE:''"
    by code_simp
  have c: "docTokCount tfIndexA 1 = 2" "docTokCount tfIndexB 1 = 2"
    by code_simp+
  have n: "N tfIndexA = 1" "N tfIndexB = 1"
    by code_simp+
  have df: "fcard (fmdom (postingOf tfIndexA ''cat'')) = 1"
    "fcard (fmdom (postingOf tfIndexB ''cat'')) = 1"
    by code_simp+
  have tf: "length (positionsOf tfIndexA ''cat'' 1) = 1"
    "length (positionsOf tfIndexB ''cat'' 1) = 2"
    by code_simp+
  have "scoreTerm tfIndexA 1 ''cat'' \<le> scoreTerm tfIndexB 1 ''cat''"
    using term_score_monotone_in_tf [of "''cat''" tfIndexA 1 tfIndexB] p c n df tf by simp
  then show ?thesis using p c n df tf by simp
qed

section \<open>Totality of the evaluator\<close>

lemma posLists_nonempty: "posLists idx doc (t # ts) \<noteq> Some []"
  by (simp add: Let_def split: option.splits)

lemma checkPhraseInDoc_total:
  "tokens \<noteq> [] \<Longrightarrow> \<exists>b. checkPhraseInDoc idx doc tokens = Inr b"
  by (cases tokens) (auto simp: checkPhraseInDoc_def Let_def split: option.splits list.splits)

lemma phraseDocs_total:
  "tokens \<noteq> [] \<Longrightarrow> \<exists>S. phraseDocs idx tokens docs res = Inr S"
proof (induction docs arbitrary: res)
  case Nil
  then show ?case by simp
next
  case (Cons d docs)
  from Cons.prems obtain b where "checkPhraseInDoc idx d tokens = Inr b"
    using checkPhraseInDoc_total by blast
  then show ?case using Cons by simp
qed

lemma docsWithPhrase_total: "\<exists>S. docsWithPhrase idx tokens = Inr S"
  by (cases "tokens = []") (auto simp: docsWithPhrase_def phraseDocs_total split: option.splits)

lemma evalToken_total: "\<exists>stack'. evalToken idx stack tok = Inr stack'"
proof -
  obtain S where "docsWithPhrase idx (Tokenize (TrimPrefix tok ''PHRASE:'')) = Inr S"
    using docsWithPhrase_total by blast
  then show ?thesis
    by (auto simp: evalToken_def split: list.splits option.splits)
qed

lemma evalLoop_total: "\<exists>stack'. evalLoop idx stack rpn = Inr stack'"
proof (induction rpn arbitrary: stack)
  case Nil
  then show ?case by simp
next
  case (Cons tok rpn)
  obtain s1 where "evalToken idx stack tok = Inr s1"
    using evalToken_total by blast
  then show ?case using Cons by simp
qed

text \<open>
  Claim C5. \<^verbatim>\<open>EvaluateRPN\<close> returns a set for every token sequence; an AND or OR met with
  fewer than two sets on the stack, and a NOT met with none, leave the stack as it is; the
  empty sequence, and any sequence that ends with an empty stack, give the empty set.
\<close>

theorem EvaluateRPN_total:
  "(\<exists>S. EvaluateRPN idx rpn = Inr S)
   \<and> (length stack < 2 \<longrightarrow>
        evalToken idx stack ''AND'' = Inr stack \<and> evalToken idx stack ''OR'' = Inr stack)
   \<and> (length stack < 1 \<longrightarrow> evalToken idx stack ''NOT'' = Inr stack)
   \<and> EvaluateRPN idx [] = Inr {||}
   \<and> (evalLoop idx [] rpn = Inr [] \<longrightarrow> EvaluateRPN idx rpn = Inr {||})"
proof -
  obtain st where st: "evalLoop idx [] rpn = Inr st"
    using evalLoop_total by blast
  then have total: "\<exists>S. EvaluateRPN idx rpn = Inr S"
    by (cases st) (simp_all add: EvaluateRPN_def)
  have binary: "length stack < 2 \<longrightarrow>
        evalToken idx stack ''AND'' = Inr stack \<and> evalToken idx stack ''OR'' = Inr stack"
    by (cases stack; cases "tl stack") (auto simp: evalToken_def)
  have unary: "length stack < 1 \<longrightarrow> evalToken idx stack ''NOT'' = Inr stack"
    by (cases stack) (auto simp: evalToken_def)
  have empty: "EvaluateRPN idx [] = Inr {||}"
    by (simp add: EvaluateRPN_def)
  have final: "evalLoop idx [] rpn = Inr [] \<longrightarrow> EvaluateRPN idx rpn = Inr {||}"
    by (simp add: EvaluateRPN_def)
  from total binary unary empty final show ?thesis by blast
qed

theorem EvaluateRPN_total_witness:
  "length [{|1::int|}] < 2 \<and> length ([] :: int fset list) < 1
   \<and> evalToken catIndex [{|1|}] ''AND'' = Inr [{|1|}]
   \<and> evalToken catIndex [{|1|}] ''OR'' = Inr [{|1|}]
   \<and> evalToken catIndex [] ''NOT'' = Inr []
   \<and> evalLoop catIndex [] [''NOT'', ''AND''] = Inr []
   \<and> EvaluateRPN catIndex [''NOT'', ''AND''] = Inr {||}"
proof -
  have loop: "evalLoop catIndex [] [''NOT'', ''AND''] = Inr []"
    by (simp add: evalToken_def)
  show ?thesis
    using EvaluateRPN_total [of catIndex "[''NOT'', ''AND'']" "[{|1|}]"]
      EvaluateRPN_total [of catIndex "[''NOT'', ''AND'']" "[]"] loop
    by simp
qed

end
